theory Spec2Isabelle
  imports Complex_Main "HOL-Library.Word"
begin

section \<open>nuts::math::vector, from src/math/vector.h\<close>

text \<open>
  The class template \<open>vector<T, Dimension>\<close> owns one member, \<open>std::array<T, Dimension> data_\<close>.
  It is modelled as a record with the one field \<open>data\<close> (a trailing underscore is not a
  name in HOL), the array being a list whose length is the template argument
  \<open>Dimension\<close>. Objects live in a store indexed by their address, so that the pointer
  comparison of the converting assignment and the references held by the sequential
  builder can be written as the source has them.

  Element types are type variables. A conversion \<open>static_cast<T>\<close> from a source element
  type is a parameter \<open>cast\<close> of the operation that performs it, and the usual arithmetic
  conversions that bring the operands of a built-in \<open>+\<close>, \<open>-\<close> or \<open>*\<close> to their common
  type are the parameters \<open>promT\<close> and \<open>promT2\<close>. A default-constructed vector of an
  arithmetic type holds indeterminate values: they are a parameter \<open>junk\<close>, a function from
  the slot to what it happens to hold.
\<close>

type_synonym addr = nat

record 'a vector =
  data :: "'a list"

type_synonym 'a store = "addr \<Rightarrow> 'a vector"

datatype error = AssertionFailed

definition Dimension :: "'a vector \<Rightarrow> nat" where
  "Dimension v = length (data v)"

text \<open>\<open>vector() = default\<close>: \<open>Dimension\<close> slots of indeterminate content.\<close>

definition vector_default :: "(nat \<Rightarrow> 'a) \<Rightarrow> nat \<Rightarrow> 'a vector" where
  "vector_default junk n = \<lparr>data = map junk [0..<n]\<rparr>"

subsection \<open>The algorithms of the standard library that the class calls\<close>

text \<open>
  \<open>std::transform(first, last, d_first, op)\<close> writes \<open>op(*first)\<close> through the output
  iterator for every element of the input range and returns the output iterator past the
  last element written. The output iterator is an index into the destination array.
\<close>

fun transform :: "('b \<Rightarrow> 'a) \<Rightarrow> 'b list \<Rightarrow> 'a list \<Rightarrow> nat \<Rightarrow> 'a list \<times> nat" where
  "transform op [] dest d = (dest, d)"
| "transform op (x # xs) dest d = transform op xs (dest[d := op x]) (Suc d)"

text \<open>
  The binary \<open>std::transform(first1, last1, first2, d_first, op)\<close> reads the second range
  in step with the first. Both ranges are arrays of the same \<open>Dimension\<close> wherever the
  class calls it; the loop is over the first range, and stops with it.
\<close>

fun transform2 :: "('a \<Rightarrow> 'b \<Rightarrow> 'r) \<Rightarrow> 'a list \<Rightarrow> 'b list \<Rightarrow> 'r list \<Rightarrow> nat \<Rightarrow> 'r list \<times> nat" where
  "transform2 op (x # xs) (y # ys) dest d = transform2 op xs ys (dest[d := op x y]) (Suc d)"
| "transform2 op xs ys dest d = (dest, d)"

text \<open>\<open>std::fill(first, last, value)\<close> on the index range from \<open>b\<close> up to, not including, \<open>e\<close>.\<close>

function fill :: "'a list \<Rightarrow> nat \<Rightarrow> nat \<Rightarrow> 'a \<Rightarrow> 'a list" where
  "fill dest b e val =
     (if b < e then fill (dest[b := val]) (Suc b) e val else dest)"
  by pat_completeness auto
termination
  by (relation "measure (\<lambda>(dest, b, e, val). e - b)") auto

declare fill.simps [simp del]

subsection \<open>Construction and the converting assignment\<close>

text \<open>
  The constructor \<open>vector(Args&&... args) : data_{static_cast<T>(args)...}\<close> takes its
  arguments by forwarding reference, so for an argument of arithmetic type \<open>U\<close> the
  deduced \<open>Args\<close> is \<open>U\<close> for an rvalue, \<open>U&\<close> for a non-const lvalue and \<open>const U&\<close> for
  a const lvalue.
\<close>

datatype arg_type = Value | LvalueRef | ConstLvalueRef

text \<open>
  \<open>std::is_convertible<T, Args>\<close>, as the constructor's \<open>enable_if\<close> writes it, from \<open>T\<close>
  to the argument's type: an rvalue of type \<open>T\<close> converts to \<open>U\<close> and binds to \<open>const U&\<close>,
  but nothing binds it to \<open>U&\<close>.
\<close>

fun is_convertible_from_T :: "arg_type \<Rightarrow> bool" where
  "is_convertible_from_T Value = True"
| "is_convertible_from_T LvalueRef = False"
| "is_convertible_from_T ConstLvalueRef = True"

text \<open>
  The constructor is enabled only for \<open>sizeof...(Args) == Dimension\<close> and
  \<open>std::conjunction_v<std::is_convertible<T, Args>...>\<close>. Where either fails the class has
  no constructor for the arguments and the program is ill-formed, which is \<open>None\<close>.
\<close>

definition vector_of_args :: "('b \<Rightarrow> 'a) \<Rightarrow> nat \<Rightarrow> (arg_type \<times> 'b) list \<Rightarrow> 'a vector option" where
  "vector_of_args cast n args =
     (if length args = n \<and> list_all (\<lambda>(ty, arg). is_convertible_from_T ty) args
      then Some \<lparr>data = map (\<lambda>(ty, arg). cast arg) args\<rparr>
      else None)"

text \<open>
  The template \<open>operator=(const vector<T2, Dimension2>& other)\<close>. \<open>this\<close> and \<open>that\<close> are the
  addresses of the target and of \<open>other\<close>, \<open>self\<close> and \<open>other\<close> what the two objects hold.
  The template is enabled for \<open>Dimension2 <= Dimension\<close> only, so the output iterator
  that \<open>std::transform\<close> returns is never past the end of the target; the properties
  below carry that bound as an assumption.
\<close>

definition assign_op :: "('b \<Rightarrow> 'a::zero) \<Rightarrow> addr \<Rightarrow> 'a vector \<Rightarrow> addr \<Rightarrow> 'b vector \<Rightarrow> 'a vector" where
  "assign_op cast this self that other =
     (if this = that then self
      else (case transform cast (data other) (data self) 0 of
              (dest, it) \<Rightarrow> self\<lparr>data := fill dest it (length dest) 0\<rparr>))"

text \<open>
  \<open>explicit vector(const vector<T2, Dimension2>& other) { *this = other; }\<close>: the object
  under construction is default-initialised, then assigned.
\<close>

definition vector_of_vector :: "('b \<Rightarrow> 'a::zero) \<Rightarrow> (nat \<Rightarrow> 'a) \<Rightarrow> nat \<Rightarrow> addr \<Rightarrow> addr \<Rightarrow> 'b vector \<Rightarrow> 'a vector" where
  "vector_of_vector cast junk n this that other =
     assign_op cast this (vector_default junk n) that other"

text \<open>
  The converting assignment between two objects of the same element type, both in the
  store: \<open>static_cast<T>\<close> of a \<open>T\<close> is the identity.
\<close>

definition assign_ref :: "'a::zero store \<Rightarrow> addr \<Rightarrow> addr \<Rightarrow> 'a store" where
  "assign_ref st this that = st(this := assign_op id this (st this) that (st that))"

text \<open>
  \<open>operator[]\<close>: \<open>assert(index < Dimension); return data_[index];\<close>, in a build that
  keeps its assertions.
\<close>

definition subscript :: "'a vector \<Rightarrow> nat \<Rightarrow> error + 'a" where
  "subscript v i = (if i < Dimension v then Inr (data v ! i) else Inl AssertionFailed)"

subsection \<open>Comparison\<close>

text \<open>
  The six comparison operators hand their operands' arrays to the operators of
  \<open>std::array\<close>. The standard defines those on the element sequences: \<open>==\<close> is
  \<open>std::equal\<close>, \<open><\<close> is \<open>std::lexicographical_compare\<close>, and \<open>a != b\<close>, \<open>a > b\<close>,
  \<open>a <= b\<close>, \<open>a >= b\<close> are \<open>!(a == b)\<close>, \<open>b < a\<close>, \<open>!(b < a)\<close>, \<open>!(a < b)\<close>.
\<close>

fun std_equal :: "'a list \<Rightarrow> 'a list \<Rightarrow> bool" where
  "std_equal [] [] = True"
| "std_equal (x # xs) (y # ys) = (if x = y then std_equal xs ys else False)"
| "std_equal xs ys = False"

fun lexicographical_compare :: "'a::ord list \<Rightarrow> 'a list \<Rightarrow> bool" where
  "lexicographical_compare (x # xs) (y # ys) =
     (if x < y then True else if y < x then False else lexicographical_compare xs ys)"
| "lexicographical_compare [] (y # ys) = True"
| "lexicographical_compare xs [] = False"

definition less_op :: "'a::ord vector \<Rightarrow> 'a vector \<Rightarrow> bool" where
  "less_op this other = lexicographical_compare (data this) (data other)"

definition eq_op :: "'a vector \<Rightarrow> 'a vector \<Rightarrow> bool" where
  "eq_op this other = std_equal (data this) (data other)"

definition ne_op :: "'a vector \<Rightarrow> 'a vector \<Rightarrow> bool" where
  "ne_op this other = (\<not> std_equal (data this) (data other))"

definition greater_op :: "'a::ord vector \<Rightarrow> 'a vector \<Rightarrow> bool" where
  "greater_op this other = lexicographical_compare (data other) (data this)"

definition ge_op :: "'a::ord vector \<Rightarrow> 'a vector \<Rightarrow> bool" where
  "ge_op this other = (\<not> lexicographical_compare (data this) (data other))"

definition le_op :: "'a::ord vector \<Rightarrow> 'a vector \<Rightarrow> bool" where
  "le_op this other = (\<not> lexicographical_compare (data other) (data this))"

subsection \<open>Arithmetic\<close>

text \<open>
  Each binary operator default-constructs \<open>result\<close>, a vector of the operands' \<open>Dimension\<close>
  over the type of \<open>val1 + val2\<close> (or \<open>-\<close>, \<open>*\<close>), fills it by \<open>std::transform\<close> and returns
  it. \<open>promT\<close> and \<open>promT2\<close> convert a \<open>T\<close> and a \<open>T2\<close> to that type.
\<close>

definition plus_op :: "('a \<Rightarrow> 'r) \<Rightarrow> ('b \<Rightarrow> 'r::plus) \<Rightarrow> (nat \<Rightarrow> 'r) \<Rightarrow> 'a vector \<Rightarrow> 'b vector \<Rightarrow> 'r vector" where
  "plus_op promT promT2 junk this other =
     (let result = vector_default junk (Dimension this)
      in result\<lparr>data := fst (transform2 (\<lambda>val1 val2. promT val1 + promT2 val2)
                                (data this) (data other) (data result) 0)\<rparr>)"

definition times_op :: "('a \<Rightarrow> 'r) \<Rightarrow> ('b \<Rightarrow> 'r::times) \<Rightarrow> (nat \<Rightarrow> 'r) \<Rightarrow> 'a vector \<Rightarrow> 'b \<Rightarrow> 'r vector" where
  "times_op promT promT2 junk this val =
     (let result = vector_default junk (Dimension this)
      in result\<lparr>data := fst (transform (\<lambda>val1. promT val1 * promT2 val)
                                (data this) (data result) 0)\<rparr>)"

definition minus_op :: "('a \<Rightarrow> 'r) \<Rightarrow> ('b \<Rightarrow> 'r::minus) \<Rightarrow> (nat \<Rightarrow> 'r) \<Rightarrow> 'a vector \<Rightarrow> 'b vector \<Rightarrow> 'r vector" where
  "minus_op promT promT2 junk this other =
     (let result = vector_default junk (Dimension this)
      in result\<lparr>data := fst (transform2 (\<lambda>val1 val2. promT val1 - promT2 val2)
                                (data this) (data other) (data result) 0)\<rparr>)"

text \<open>The free \<open>operator*(const T2& val, const vector<T, Dimension>& vec)\<close>: \<open>return vec * val;\<close>\<close>

definition scalar_times :: "('a \<Rightarrow> 'r) \<Rightarrow> ('b \<Rightarrow> 'r::times) \<Rightarrow> (nat \<Rightarrow> 'r) \<Rightarrow> 'b \<Rightarrow> 'a vector \<Rightarrow> 'r vector" where
  "scalar_times promT promT2 junk val v = times_op promT promT2 junk v val"

text \<open>
  The compound assignments work on the object at address \<open>this\<close>; \<open>other\<close> is a reference,
  an address that may be \<open>this\<close> itself. Both operands have the element type \<open>T\<close>, which
  \<open>prom\<close> converts to the type of the result. The result is a temporary at an address
  \<open>tmp\<close>, assigned to \<open>*this\<close> with \<open>cast\<close> converting back to \<open>T\<close>. Each returns \<open>*this\<close>, the
  second component. (Where the result type is \<open>T\<close> itself, overload resolution takes the
  defaulted assignment, which copies the array: \<open>assign_op\<close> with the identity for
  \<open>cast\<close> does the same, see \<open>assign_op_id\<close>.)
\<close>

definition times_assign :: "('a \<Rightarrow> 'r::times) \<Rightarrow> ('r \<Rightarrow> 'a::zero) \<Rightarrow> (nat \<Rightarrow> 'r) \<Rightarrow> addr \<Rightarrow> 'a store \<Rightarrow> addr \<Rightarrow> 'a \<Rightarrow> 'a store \<times> addr" where
  "times_assign prom cast junk tmp st this val =
     (st(this := assign_op cast this (st this) tmp (times_op prom prom junk (st this) val)), this)"

text \<open>
  \<open>operator*=\<close> declares its parameter as \<open>const_reference val\<close>, that is \<open>const T&\<close>. In a
  call \<open>a *= s\<close> with a scalar of another arithmetic type the reference binds to a
  temporary \<open>T\<close>, the value of \<open>s\<close> converted by \<open>conv\<close>, before the body runs.
\<close>

definition times_assign_call :: "('b \<Rightarrow> 'a) \<Rightarrow> ('a \<Rightarrow> 'r::times) \<Rightarrow> ('r \<Rightarrow> 'a::zero) \<Rightarrow> (nat \<Rightarrow> 'r) \<Rightarrow> addr \<Rightarrow> 'a store \<Rightarrow> addr \<Rightarrow> 'b \<Rightarrow> 'a store \<times> addr" where
  "times_assign_call conv prom cast junk tmp st this s =
     times_assign prom cast junk tmp st this (conv s)"

text \<open>
  The conversion of a \<open>double\<close> to an \<open>int\<close> discards the fractional part. (A double
  stands as the real number it is.)
\<close>

definition double_to_int :: "real \<Rightarrow> int" where
  "double_to_int x = (if 0 \<le> x then \<lfloor>x\<rfloor> else \<lceil>x\<rceil>)"

definition minus_assign :: "('a \<Rightarrow> 'r::minus) \<Rightarrow> ('r \<Rightarrow> 'a::zero) \<Rightarrow> (nat \<Rightarrow> 'r) \<Rightarrow> addr \<Rightarrow> 'a store \<Rightarrow> addr \<Rightarrow> addr \<Rightarrow> 'a store \<times> addr" where
  "minus_assign prom cast junk tmp st this other =
     (st(this := assign_op cast this (st this) tmp (minus_op prom prom junk (st this) (st other))), this)"

definition plus_assign :: "('a \<Rightarrow> 'r::plus) \<Rightarrow> ('r \<Rightarrow> 'a::zero) \<Rightarrow> (nat \<Rightarrow> 'r) \<Rightarrow> addr \<Rightarrow> 'a store \<Rightarrow> addr \<Rightarrow> addr \<Rightarrow> 'a store \<times> addr" where
  "plus_assign prom cast junk tmp st this other =
     (st(this := assign_op cast this (st this) tmp (plus_op prom prom junk (st this) (st other))), this)"

text \<open>
  Inside a member function \<open>*this\<close> has the type the function's qualifier gives it:
  \<open>vector\<close> in a member without one, \<open>const vector\<close> in a \<open>const\<close> member. Every
  \<open>operator=\<close> of the class is a non-const member, so an assignment to \<open>*this\<close> in a
  \<open>const\<close> member has no viable \<open>operator=\<close>: the member is ill-formed once it is
  instantiated, which is \<open>None\<close>. (The compound assignments above are members without
  a qualifier, and assign.)
\<close>

datatype qualifier = Unqualified | Const

definition assign_this :: "qualifier \<Rightarrow> ('r \<Rightarrow> 'a::zero) \<Rightarrow> addr \<Rightarrow> 'a vector \<Rightarrow> addr \<Rightarrow> 'r vector \<Rightarrow> 'a vector option" where
  "assign_this q cast this self that other =
     (case q of
        Unqualified \<Rightarrow> Some (assign_op cast this self that other)
      | Const \<Rightarrow> None)"

text \<open>
  The unary \<open>vector& operator-() const\<close> has the body \<open>*this = *this * -1; return *this;\<close>.
  The literal \<open>-1\<close> is an \<open>int\<close>, the type \<open>T2\<close> of this call of \<open>operator*\<close>. The member is
  \<open>const\<close>; what it would return is the reference to \<open>*this\<close>, the address \<open>this\<close>.
\<close>

definition uminus_op :: "('a \<Rightarrow> 'r::times) \<Rightarrow> ('b::{uminus,one} \<Rightarrow> 'r) \<Rightarrow> ('r \<Rightarrow> 'a::zero) \<Rightarrow> (nat \<Rightarrow> 'r) \<Rightarrow> addr \<Rightarrow> 'a store \<Rightarrow> addr \<Rightarrow> ('a store \<times> addr) option" where
  "uminus_op promT promT2 cast junk tmp st this =
     (case assign_this Const cast this (st this) tmp (times_op promT promT2 junk (st this) (- 1)) of
        None \<Rightarrow> None
      | Some v \<Rightarrow> Some (st(this := v), this))"

subsection \<open>The sequential builder, detail::comma_initializer\<close>

text \<open>
  The builder holds \<open>vec_\<close>, a reference to the target, and \<open>index_\<close>, both without the
  underscore here. A failed \<open>assert\<close> aborts the program: the result is \<open>Inl\<close>, with
  the store as it was at that moment.
\<close>

record comma_initializer =
  vec :: addr
  index :: nat

type_synonym 'a aborted = "error \<times> 'a store"

text \<open>
  The non-const \<open>operator[]\<close> checks \<open>index < Dimension\<close> and returns a reference to the
  slot, through which the caller stores.
\<close>

definition subscript_store :: "'a vector \<Rightarrow> nat \<Rightarrow> 'a \<Rightarrow> error + 'a vector" where
  "subscript_store v i x =
     (if i < Dimension v then Inr (v\<lparr>data := (data v)[i := x]\<rparr>) else Inl AssertionFailed)"

text \<open>\<open>operator,(T2&& val)\<close> for a scalar.\<close>

definition comma_scalar :: "('b \<Rightarrow> 'a) \<Rightarrow> 'a store \<Rightarrow> comma_initializer \<Rightarrow> 'b \<Rightarrow> 'a aborted + 'a store \<times> comma_initializer" where
  "comma_scalar cast st ci val =
     (if index ci < Dimension (st (vec ci)) then
        (case subscript_store (st (vec ci)) (index ci) (cast val) of
           Inl e \<Rightarrow> Inl (e, st)
         | Inr v \<Rightarrow> Inr (st(vec ci := v), ci\<lparr>index := Suc (index ci)\<rparr>))
      else Inl (AssertionFailed, st))"

text \<open>
  \<open>operator,(const vector<T2, Dimension2>& other)\<close>: the loop \<open>for(auto& elem : other)\<close>
  over the elements, each appended by \<open>*this, elem\<close>. The sub-vector is an object other
  than the target, held here by its value.
\<close>

fun comma_elems :: "('b \<Rightarrow> 'a) \<Rightarrow> 'a store \<Rightarrow> comma_initializer \<Rightarrow> 'b list \<Rightarrow> 'a aborted + 'a store \<times> comma_initializer" where
  "comma_elems cast st ci [] = Inr (st, ci)"
| "comma_elems cast st ci (elem # elems) =
     (case comma_scalar cast st ci elem of
        Inl e \<Rightarrow> Inl e
      | Inr (st', ci') \<Rightarrow> comma_elems cast st' ci' elems)"

definition comma_vector :: "('b \<Rightarrow> 'a) \<Rightarrow> 'a store \<Rightarrow> comma_initializer \<Rightarrow> 'b vector \<Rightarrow> 'a aborted + 'a store \<times> comma_initializer" where
  "comma_vector cast st ci other = comma_elems cast st ci (data other)"

text \<open>
  What a chain appends: a scalar, or a vector, which is an lvalue or an rvalue
  expression. The value category matters to \<open>operator<<\<close> only.
\<close>

datatype category = Lvalue | Rvalue

datatype 'b arg = Scalar 'b | Vector category "'b vector"

text \<open>
  The constructor binds \<open>vec_\<close>, starts \<open>index_\<close> at 0 and appends the first value by
  \<open>*this, val\<close>. The vector overload of \<open>operator,\<close> exists for \<open>Dimension2 <= Dimension\<close>
  only; for a larger vector neither overload is viable, the expression is the built-in
  comma operator and nothing is appended.
\<close>

definition comma_initializer_ctor :: "('b \<Rightarrow> 'a) \<Rightarrow> 'a store \<Rightarrow> addr \<Rightarrow> 'b arg \<Rightarrow> 'a aborted + 'a store \<times> comma_initializer" where
  "comma_initializer_ctor cast st v a =
     (let ci = \<lparr>vec = v, index = 0\<rparr>
      in case a of
           Scalar val \<Rightarrow> comma_scalar cast st ci val
         | Vector c other \<Rightarrow>
             if Dimension other \<le> Dimension (st v) then comma_vector cast st ci other
             else Inr (st, ci))"

text \<open>\<open>~comma_initializer()\<close>: \<open>assert(index_ == Dimension);\<close>\<close>

definition comma_initializer_dtor :: "'a store \<Rightarrow> comma_initializer \<Rightarrow> 'a aborted + 'a store" where
  "comma_initializer_dtor st ci =
     (if index ci = Dimension (st (vec ci)) then Inr st else Inl (AssertionFailed, st))"

text \<open>
  The two overloads of \<open>operator<<\<close>. The first takes the target by reference. The second
  takes it by value: its parameter \<open>vec\<close> is a copy of the caller's vector, an object of its
  own at an address \<open>tmp\<close>, and the builder is bound to that parameter. (The parameter
  is taken to live to the end of the full-expression, one of the two lifetimes the
  language allows an implementation to give it.)
\<close>

definition shl_ref :: "('b \<Rightarrow> 'a) \<Rightarrow> 'a store \<Rightarrow> addr \<Rightarrow> 'b arg \<Rightarrow> 'a aborted + 'a store \<times> comma_initializer" where
  "shl_ref cast st v val = comma_initializer_ctor cast st v val"

definition shl_value :: "('b \<Rightarrow> 'a) \<Rightarrow> addr \<Rightarrow> 'a store \<Rightarrow> addr \<Rightarrow> 'b vector \<Rightarrow> 'a aborted + 'a store \<times> comma_initializer" where
  "shl_value cast tmp st v other =
     comma_initializer_ctor cast (st(tmp := st v)) tmp (Vector Rvalue other)"

text \<open>
  Overload resolution for \<open>vec << val\<close> with an lvalue \<open>vec\<close>: both templates match an
  rvalue vector with identity conversions, and the second, whose second parameter is the
  more specialised, is chosen; every other \<open>val\<close> matches the first only.
\<close>

definition shl :: "('b \<Rightarrow> 'a) \<Rightarrow> addr \<Rightarrow> 'a store \<Rightarrow> addr \<Rightarrow> 'b arg \<Rightarrow> 'a aborted + 'a store \<times> comma_initializer" where
  "shl cast tmp st v val =
     (case val of
        Vector Rvalue other \<Rightarrow> shl_value cast tmp st v other
      | _ \<Rightarrow> shl_ref cast st v val)"

text \<open>
  The rest of a chain \<open>vec << val, a1, ..., ak\<close>, from the left. Past a vector that is
  too large the commas are built-in ones, and the remaining values are dropped.
\<close>

fun comma_chain :: "('b \<Rightarrow> 'a) \<Rightarrow> 'a store \<Rightarrow> comma_initializer \<Rightarrow> 'b arg list \<Rightarrow> 'a aborted + 'a store \<times> comma_initializer" where
  "comma_chain cast st ci [] = Inr (st, ci)"
| "comma_chain cast st ci (Scalar val # rest) =
     (case comma_scalar cast st ci val of
        Inl e \<Rightarrow> Inl e
      | Inr (st', ci') \<Rightarrow> comma_chain cast st' ci' rest)"
| "comma_chain cast st ci (Vector c other # rest) =
     (if Dimension other \<le> Dimension (st (vec ci)) then
        (case comma_vector cast st ci other of
           Inl e \<Rightarrow> Inl e
         | Inr (st', ci') \<Rightarrow> comma_chain cast st' ci' rest)
      else Inr (st, ci))"

text \<open>
  The statement \<open>vec << val, a1, ..., ak;\<close>: the builder is made, the chain runs, and
  the builder is destroyed at the end of the full-expression.
\<close>

definition build :: "('b \<Rightarrow> 'a) \<Rightarrow> addr \<Rightarrow> 'a store \<Rightarrow> addr \<Rightarrow> 'b arg \<Rightarrow> 'b arg list \<Rightarrow> 'a aborted + 'a store" where
  "build cast tmp st v val rest =
     (case shl cast tmp st v val of
        Inl e \<Rightarrow> Inl e
      | Inr (st1, ci1) \<Rightarrow>
          (case comma_chain cast st1 ci1 rest of
             Inl e \<Rightarrow> Inl e
           | Inr (st2, ci2) \<Rightarrow> comma_initializer_dtor st2 ci2))"

text \<open>The scalar values a chain supplies, a vector counting as its elements in order.\<close>

fun supplied :: "'b arg \<Rightarrow> 'b list" where
  "supplied (Scalar val) = [val]"
| "supplied (Vector c other) = data other"

definition supplied_all :: "'b arg list \<Rightarrow> 'b list" where
  "supplied_all as = concat (map supplied as)"

text \<open>The store a failed or finished statement leaves behind.\<close>

fun final_store :: "'a aborted + 'a store \<Rightarrow> 'a store" where
  "final_store (Inl (e, st)) = st"
| "final_store (Inr st) = st"

text \<open>
  The lexicographic order in the words of the specification, element 0 the most
  significant: the sequences agree up to some index, where the left one is smaller.
\<close>

definition lexicographic_less :: "'a::ord list \<Rightarrow> 'a list \<Rightarrow> bool" where
  "lexicographic_less xs ys =
     (\<exists>i\<in>{..<length xs}. xs ! i < ys ! i \<and> (\<forall>j\<in>{..<i}. xs ! j = ys ! j))"

text \<open>
  The compound assignments in the words of the specification: the result of the
  non-mutating form is assigned back into \<open>a\<close>, and \<open>a\<close> is what is returned.
\<close>

definition assign_back :: "('r \<Rightarrow> 'a::zero) \<Rightarrow> addr \<Rightarrow> 'a store \<Rightarrow> addr \<Rightarrow> 'r vector \<Rightarrow> 'a store \<times> addr" where
  "assign_back cast tmp st a result = (st(a := assign_op cast a (st a) tmp result), a)"

text \<open>Whether a first value makes overload resolution take the by-value \<open>operator<<\<close>.\<close>

fun rvalue_vector :: "'b arg \<Rightarrow> bool" where
  "rvalue_vector (Vector Rvalue other) = True"
| "rvalue_vector val = False"

section \<open>Properties\<close>

subsection \<open>The library algorithms in closed form\<close>

lemma transform_eq:
  "d + length xs \<le> length dest \<Longrightarrow>
     transform op xs dest d = (take d dest @ map op xs @ drop (d + length xs) dest, d + length xs)"
proof (induction xs arbitrary: dest d)
  case Nil
  then show ?case by simp
next
  case (Cons x xs)
  have "d < length dest" using Cons.prems by simp
  then have "take (Suc d) (dest[d := op x]) = take d dest @ [op x]"
    by (simp add: take_Suc_conv_app_nth)
  then show ?case using Cons by simp
qed

lemma fill_eq:
  "e \<le> length dest \<Longrightarrow>
     fill dest b e val = take b dest @ replicate (e - b) val @ drop (max b e) dest"
proof (induction dest b e val rule: fill.induct)
  case (1 dest b e val)
  show ?case
  proof (cases "b < e")
    case True
    have lt: "b < length dest" using True "1.prems" by simp
    have tk: "take (Suc b) (dest[b := val]) = take b dest @ [val]"
      using lt by (simp add: take_Suc_conv_app_nth)
    have "fill dest b e val = fill (dest[b := val]) (Suc b) e val"
      using True by (subst fill.simps) simp
    also have "\<dots> = take (Suc b) (dest[b := val]) @ replicate (e - Suc b) val
          @ drop (max (Suc b) e) (dest[b := val])"
      using "1.IH" [OF True] "1.prems" by simp
    also have "\<dots> = take b dest @ replicate (e - b) val @ drop (max b e) dest"
      using True tk by (simp add: max_def replicate_app_Cons_same Suc_diff_Suc flip: replicate_Suc)
    finally show ?thesis .
  next
    case False
    then show ?thesis by (subst fill.simps) (simp add: max_def)
  qed
qed

lemma assign_op_data:
  assumes "Dimension other \<le> Dimension self" and "this \<noteq> that"
  shows "data (assign_op cast this self that other) =
           map cast (data other) @ replicate (Dimension self - Dimension other) 0"
  using assms by (simp add: assign_op_def Dimension_def transform_eq fill_eq)

lemma assign_op_same:
  "assign_op cast this self this other = self"
  by (simp add: assign_op_def)

subsection \<open>Conversion from a vector of another type or a smaller dimension\<close>

text \<open>
  C1. A source vector of dimension \<open>N2\<close> at most the target's \<open>N\<close> is assigned into the
  target, or a target is constructed from it: the target keeps its dimension, its first
  \<open>N2\<close> elements are the source's elements converted by \<open>static_cast<T>\<close>, in order, and
  every element from \<open>N2\<close> to \<open>N - 1\<close> is the zero of \<open>T\<close>. The first two parts are the
  assignment and the constructor for a source that is another object than the target;
  the third is the assignment between any two objects of one element type in the store,
  the target itself included.
\<close>

theorem from_vector_converts_and_zero_fills:
  fixes cast :: "'b \<Rightarrow> 'a::zero" and st :: "'a store"
  assumes "Dimension other \<le> Dimension self" and "this \<noteq> that"
    and "Dimension (st q) \<le> Dimension (st p)"
  shows "(Dimension (assign_op cast this self that other) = Dimension self
          \<and> (\<forall>i<Dimension other. data (assign_op cast this self that other) ! i = cast (data other ! i))
          \<and> (\<forall>i. Dimension other \<le> i \<and> i < Dimension self
                \<longrightarrow> data (assign_op cast this self that other) ! i = 0))
       \<and> (Dimension (vector_of_vector cast junk (Dimension self) this that other) = Dimension self
          \<and> (\<forall>i<Dimension other.
                data (vector_of_vector cast junk (Dimension self) this that other) ! i = cast (data other ! i))
          \<and> (\<forall>i. Dimension other \<le> i \<and> i < Dimension self
                \<longrightarrow> data (vector_of_vector cast junk (Dimension self) this that other) ! i = 0))
       \<and> (Dimension (assign_ref st p q p) = Dimension (st p)
          \<and> (\<forall>i<Dimension (st q). data (assign_ref st p q p) ! i = data (st q) ! i)
          \<and> (\<forall>i. Dimension (st q) \<le> i \<and> i < Dimension (st p) \<longrightarrow> data (assign_ref st p q p) ! i = 0))"
proof -
  have shape: "Dimension r = Dimension s
      \<and> (\<forall>i<Dimension other. data r ! i = cast (data other ! i))
      \<and> (\<forall>i. Dimension other \<le> i \<and> i < Dimension s \<longrightarrow> data r ! i = 0)"
    if "data r = map cast (data other) @ replicate (Dimension s - Dimension other) 0"
      and "Dimension other \<le> Dimension s"
    for r s :: "'a vector" and other :: "'c vector" and cast :: "'c \<Rightarrow> 'a"
    using that by (auto simp add: Dimension_def nth_append)
  have dflt: "Dimension (vector_default junk (Dimension self)) = Dimension self"
    by (simp add: vector_default_def Dimension_def)
  have one: "data (assign_op cast this self that other) =
      map cast (data other) @ replicate (Dimension self - Dimension other) 0"
    using assms(1,2) by (rule assign_op_data)
  have two: "data (vector_of_vector cast junk (Dimension self) this that other) =
      map cast (data other) @ replicate (Dimension self - Dimension other) 0"
    unfolding vector_of_vector_def
    using assign_op_data [of other "vector_default junk (Dimension self)" this that cast] assms(1,2) dflt
    by simp
  have three: "data (assign_ref st p q p) =
      map id (data (st q)) @ replicate (Dimension (st p) - Dimension (st q)) 0"
  proof (cases "p = q")
    case True
    then show ?thesis by (simp add: assign_ref_def assign_op_same)
  next
    case False
    then show ?thesis
      using assign_op_data [of "st q" "st p" p q id] assms(3) by (simp add: assign_ref_def)
  qed
  have three': "Dimension (assign_ref st p q p) = Dimension (st p)
      \<and> (\<forall>i<Dimension (st q). data (assign_ref st p q p) ! i = id (data (st q) ! i))
      \<and> (\<forall>i. Dimension (st q) \<le> i \<and> i < Dimension (st p) \<longrightarrow> data (assign_ref st p q p) ! i = 0)"
    using three assms(3) by (rule shape)
  show ?thesis
    using shape [OF one assms(1)] shape [OF two assms(1)] three' by simp
qed

theorem from_vector_converts_and_zero_fills_witness:
  "Dimension \<lparr>data = [1, 2 :: int]\<rparr> \<le> Dimension \<lparr>data = [7, 8, 9 :: real]\<rparr>
   \<and> (0::addr) \<noteq> 1
   \<and> data (assign_op real_of_int 0 \<lparr>data = [7, 8, 9]\<rparr> 1 \<lparr>data = [1, 2]\<rparr>) ! 0 = 1
   \<and> data (assign_op real_of_int 0 \<lparr>data = [7, 8, 9]\<rparr> 1 \<lparr>data = [1, 2]\<rparr>) ! 1 = 2
   \<and> data (assign_op real_of_int 0 \<lparr>data = [7, 8, 9]\<rparr> 1 \<lparr>data = [1, 2]\<rparr>) ! 2 = 0
   \<and> data (vector_of_vector real_of_int (\<lambda>i. 5) 3 0 1 \<lparr>data = [1, 2]\<rparr>) ! 2 = 0"
proof -
  have h1: "Dimension \<lparr>data = [1, 2 :: int]\<rparr> \<le> Dimension \<lparr>data = [7, 8, 9 :: real]\<rparr>"
    by (simp add: Dimension_def)
  have h2: "(0::addr) \<noteq> 1" by simp
  have h3: "Dimension ((\<lambda>a. \<lparr>data = [7, 8, 9 :: real]\<rparr>) (1::addr))
      \<le> Dimension ((\<lambda>a. \<lparr>data = [7, 8, 9 :: real]\<rparr>) (0::addr))"
    by simp
  have d: "Dimension \<lparr>data = [7, 8, 9 :: real]\<rparr> = 3" "Dimension \<lparr>data = [1, 2 :: int]\<rparr> = 2"
    by (simp_all add: Dimension_def)
  show ?thesis
    using h1 h2 from_vector_converts_and_zero_fills [OF h1 h2 h3, of real_of_int "\<lambda>i. 5"]
    by (simp add: d)
qed

subsection \<open>Self-assignment\<close>

text \<open>
  C5. Assigning a vector to itself through the converting assignment (source and target
  the same object, so of the same element type and dimension) changes nothing: the
  store afterwards is the store before, and so is every element of the vector.
\<close>

theorem self_assignment_is_noop:
  "assign_ref st v v = st \<and> data (assign_ref st v v v) = data (st v)"
  by (simp add: assign_ref_def assign_op_same)

subsection \<open>Construction from scalars, read back by index\<close>

text \<open>
  From exactly \<open>N\<close> arguments none of which is a non-const lvalue the constructor makes
  a vector, and reading element \<open>i\<close> of it by \<open>operator[]\<close>, for \<open>i\<close> from 0 to \<open>N - 1\<close>,
  passes the bounds assertion and returns the \<open>i\<close>-th argument converted to \<open>T\<close>.
\<close>

lemma vector_of_args_then_subscript:
  assumes "length args = n" and "\<forall>a\<in>set args. fst a \<noteq> LvalueRef"
  shows "\<exists>v. vector_of_args cast n args = Some v
           \<and> Dimension v = n
           \<and> (\<forall>i<n. subscript v i = Inr (cast (snd (args ! i))))"
proof -
  have conv: "list_all (\<lambda>(ty, arg). is_convertible_from_T ty) args"
    unfolding list_all_iff
  proof
    fix a assume "a \<in> set args"
    then have "fst a \<noteq> LvalueRef" using assms(2) by simp
    then show "case a of (ty, arg) \<Rightarrow> is_convertible_from_T ty"
      by (cases a, cases "fst a") simp_all
  qed
  show ?thesis
    using assms(1) conv
    by (simp add: vector_of_args_def subscript_def Dimension_def case_prod_unfold)
qed

text \<open>
  C6. Constructing a vector from exactly \<open>N\<close> values and reading it back by index is to
  return the values supplied. For values that are non-const lvalues there is nothing
  to read back: \<open>int a = 1, b = 2; vector2i v(a, b);\<close> deduces \<open>Args\<close> as \<open>int&\<close>, to which
  \<open>int\<close> is not convertible, so the constructor is disabled and no vector is made. The
  same two values as rvalues, \<open>vector2i(1, 2)\<close>, do make \<open>(1,2)\<close>.
\<close>

theorem from_scalars_rejects_lvalues:
  "vector_of_args id 2 [(LvalueRef, 1 :: int), (LvalueRef, 2)] = (None :: int vector option)
   \<and> vector_of_args id 2 [(Value, 1 :: int), (Value, 2)] = Some \<lparr>data = [1, 2 :: int]\<rparr>"
  by (simp add: vector_of_args_def)

subsection \<open>Comparison is lexicographic\<close>

lemma std_equal_eq: "std_equal xs ys \<longleftrightarrow> xs = ys"
  by (induction xs ys rule: std_equal.induct) auto

lemma lexicographic_less_Cons:
  "lexicographic_less (x # xs) (y # ys) \<longleftrightarrow> x < y \<or> (x = y \<and> lexicographic_less xs ys)"
  unfolding lexicographic_less_def
  by (auto simp: Bex_def Ball_def Ex_less_Suc2 All_less_Suc2)

lemma lexicographical_compare_eq:
  fixes xs ys :: "'a::linorder list"
  shows "length xs = length ys \<Longrightarrow>
    lexicographical_compare xs ys \<longleftrightarrow> lexicographic_less xs ys"
proof (induction xs ys rule: list_induct2)
  case Nil
  then show ?case by (simp add: lexicographic_less_def)
next
  case (Cons x xs y ys)
  then show ?case by (auto simp: lexicographic_less_Cons)
qed

lemma not_lexicographical_compare:
  fixes xs ys :: "'a::linorder list"
  shows "length xs = length ys \<Longrightarrow>
    \<not> lexicographical_compare ys xs \<longleftrightarrow> lexicographical_compare xs ys \<or> xs = ys"
  by (induction xs ys rule: list_induct2) auto

text \<open>
  C7. For two vectors of one totally ordered element type and one dimension, each of
  \<open>==\<close>, \<open>!=\<close>, \<open><\<close>, \<open><=\<close>, \<open>>\<close>, \<open>>=\<close> returns what the lexicographic comparison of the
  element sequences gives, element 0 the most significant. In particular
  \<open>vector2i(1,5) < vector2i(2,0)\<close> and \<open>vector2i(1,5) < vector2i(1,6)\<close> hold.
\<close>

theorem comparison_is_lexicographic:
  fixes a b :: "'a::linorder vector"
  assumes "Dimension a = Dimension b"
  shows "(eq_op a b \<longleftrightarrow> data a = data b)
       \<and> (ne_op a b \<longleftrightarrow> data a \<noteq> data b)
       \<and> (less_op a b \<longleftrightarrow> lexicographic_less (data a) (data b))
       \<and> (le_op a b \<longleftrightarrow> lexicographic_less (data a) (data b) \<or> data a = data b)
       \<and> (greater_op a b \<longleftrightarrow> lexicographic_less (data b) (data a))
       \<and> (ge_op a b \<longleftrightarrow> lexicographic_less (data b) (data a) \<or> data a = data b)
       \<and> less_op \<lparr>data = [1, 5 :: int]\<rparr> \<lparr>data = [2, 0]\<rparr>
       \<and> less_op \<lparr>data = [1, 5 :: int]\<rparr> \<lparr>data = [1, 6]\<rparr>"
proof -
  have len: "length (data a) = length (data b)"
    using assms by (simp add: Dimension_def)
  have lt: "less_op a b \<longleftrightarrow> lexicographic_less (data a) (data b)"
    using len by (simp add: less_op_def lexicographical_compare_eq)
  have gt: "greater_op a b \<longleftrightarrow> lexicographic_less (data b) (data a)"
    using len by (simp add: greater_op_def lexicographical_compare_eq)
  have le: "le_op a b \<longleftrightarrow> lexicographic_less (data a) (data b) \<or> data a = data b"
    using len not_lexicographical_compare [of "data a" "data b"]
    by (simp add: le_op_def lexicographical_compare_eq)
  have ge: "ge_op a b \<longleftrightarrow> lexicographic_less (data b) (data a) \<or> data a = data b"
    using len not_lexicographical_compare [of "data b" "data a"]
    by (auto simp add: ge_op_def lexicographical_compare_eq)
  have inst: "less_op \<lparr>data = [1, 5 :: int]\<rparr> \<lparr>data = [2, 0]\<rparr>"
    "less_op \<lparr>data = [1, 5 :: int]\<rparr> \<lparr>data = [1, 6]\<rparr>"
    by (simp_all add: less_op_def)
  show ?thesis
    using lt gt le ge inst by (simp add: eq_op_def ne_op_def std_equal_eq)
qed

theorem comparison_is_lexicographic_witness:
  "Dimension \<lparr>data = [1, 5 :: int]\<rparr> = Dimension \<lparr>data = [1, 6 :: int]\<rparr>
   \<and> less_op \<lparr>data = [1, 5 :: int]\<rparr> \<lparr>data = [1, 6]\<rparr>
   \<and> lexicographic_less [1, 5 :: int] [1, 6]
   \<and> \<not> ge_op \<lparr>data = [1, 5 :: int]\<rparr> \<lparr>data = [1, 6]\<rparr>
   \<and> \<not> lexicographic_less [1, 6 :: int] [1, 5]"
proof -
  have h: "Dimension \<lparr>data = [1, 5 :: int]\<rparr> = Dimension \<lparr>data = [1, 6 :: int]\<rparr>"
    by (simp add: Dimension_def)
  have c: "less_op \<lparr>data = [1, 5 :: int]\<rparr> \<lparr>data = [1, 6]\<rparr>"
    "\<not> ge_op \<lparr>data = [1, 5 :: int]\<rparr> \<lparr>data = [1, 6]\<rparr>"
    by (simp_all add: less_op_def ge_op_def)
  show ?thesis
    using h c comparison_is_lexicographic [OF h] by simp
qed

subsection \<open>Arithmetic in closed form\<close>

lemma transform2_eq:
  "length xs = length ys \<Longrightarrow> d + length xs \<le> length dest \<Longrightarrow>
     transform2 op xs ys dest d =
       (take d dest @ map2 op xs ys @ drop (d + length xs) dest, d + length xs)"
proof (induction xs ys arbitrary: dest d rule: list_induct2)
  case Nil
  then show ?case by simp
next
  case (Cons x xs y ys)
  have "d < length dest" using Cons.prems by simp
  then have "take (Suc d) (dest[d := op x y]) = take d dest @ [op x y]"
    by (simp add: take_Suc_conv_app_nth)
  then show ?case using Cons by simp
qed

text \<open>Nothing of the indeterminate content of \<open>result\<close> is left in what an operator returns.\<close>

lemma times_op_eq:
  "times_op promT promT2 junk v val = \<lparr>data = map (\<lambda>val1. promT val1 * promT2 val) (data v)\<rparr>"
  by (simp add: times_op_def vector_default_def Dimension_def transform_eq)

lemma plus_op_eq:
  "Dimension other = Dimension v \<Longrightarrow>
   plus_op promT promT2 junk v other =
     \<lparr>data = map2 (\<lambda>val1 val2. promT val1 + promT2 val2) (data v) (data other)\<rparr>"
  by (simp add: plus_op_def vector_default_def Dimension_def transform2_eq)

lemma minus_op_eq:
  "Dimension other = Dimension v \<Longrightarrow>
   minus_op promT promT2 junk v other =
     \<lparr>data = map2 (\<lambda>val1 val2. promT val1 - promT2 val2) (data v) (data other)\<rparr>"
  by (simp add: minus_op_def vector_default_def Dimension_def transform2_eq)

lemma assign_op_same_dim:
  "this \<noteq> that \<Longrightarrow> length xs = length (data self) \<Longrightarrow>
   assign_op cast this self that \<lparr>data = xs\<rparr> = \<lparr>data = map cast xs\<rparr>"
  using assign_op_data [of "\<lparr>data = xs\<rparr>" self this that cast] by (simp add: Dimension_def)

text \<open>
  With the identity for \<open>cast\<close> the converting assignment from another object of the same
  dimension is the defaulted assignment: the target becomes a copy of the source.
\<close>

lemma assign_op_id:
  "this \<noteq> that \<Longrightarrow> Dimension other = Dimension self \<Longrightarrow>
   assign_op id this self that other = other"
  using assign_op_same_dim [of this that "data other" self id]
  by (cases other) (simp add: Dimension_def)

subsection \<open>Compound assignment\<close>

text \<open>
  C8, as amended. For \<open>b\<close> a vector of the type of \<open>a\<close> and \<open>s\<close> a scalar of the element
  type \<open>T\<close>, \<open>a += b\<close>, \<open>a -= b\<close> and \<open>a *= s\<close> leave the store in the state that assigning
  \<open>a + b\<close>, \<open>a - b\<close>, \<open>a * s\<close> back into \<open>a\<close> gives, and return a reference to \<open>a\<close>. Element
  by element, \<open>a\<close> then holds the element of the non-mutating result converted to \<open>T\<close>,
  and no other object has changed; \<open>b\<close> may be \<open>a\<close> itself. The temporary that holds
  the result is an object other than \<open>a\<close>. For a scalar \<open>s'\<close> of another type, \<open>a *= s'\<close>
  is the assignment of \<open>a * t\<close> back into \<open>a\<close>, where \<open>t\<close> is \<open>s'\<close> converted to \<open>T\<close>.
\<close>

theorem compound_assignment_assigns_back:
  fixes st :: "'a::zero store" and prom :: "'a \<Rightarrow> 'r::{plus,minus,times}"
  assumes "tmp \<noteq> a" and "Dimension (st b) = Dimension (st a)"
  shows "plus_assign prom cast junk tmp st a b
           = assign_back cast tmp st a (plus_op prom prom junk (st a) (st b))
       \<and> minus_assign prom cast junk tmp st a b
           = assign_back cast tmp st a (minus_op prom prom junk (st a) (st b))
       \<and> times_assign prom cast junk tmp st a s
           = assign_back cast tmp st a (times_op prom prom junk (st a) s)
       \<and> plus_assign prom cast junk tmp st a b
           = (st(a := \<lparr>data = map2 (\<lambda>x y. cast (prom x + prom y)) (data (st a)) (data (st b))\<rparr>), a)
       \<and> minus_assign prom cast junk tmp st a b
           = (st(a := \<lparr>data = map2 (\<lambda>x y. cast (prom x - prom y)) (data (st a)) (data (st b))\<rparr>), a)
       \<and> times_assign prom cast junk tmp st a s
           = (st(a := \<lparr>data = map (\<lambda>x. cast (prom x * prom s)) (data (st a))\<rparr>), a)
       \<and> times_assign_call conv prom cast junk tmp st a s'
           = assign_back cast tmp st a (times_op prom prom junk (st a) (conv s'))
       \<and> times_assign_call conv prom cast junk tmp st a s'
           = (st(a := \<lparr>data = map (\<lambda>x. cast (prom x * prom (conv s'))) (data (st a))\<rparr>), a)"
proof -
  have ne: "a \<noteq> tmp" using assms(1) by simp
  have len: "length (data (st b)) = length (data (st a))"
    using assms(2) by (simp add: Dimension_def)
  have p: "plus_assign prom cast junk tmp st a b
      = (st(a := \<lparr>data = map2 (\<lambda>x y. cast (prom x + prom y)) (data (st a)) (data (st b))\<rparr>), a)"
    using assms(2) ne len
    by (simp add: plus_assign_def plus_op_eq assign_op_same_dim comp_def case_prod_unfold)
  have m: "minus_assign prom cast junk tmp st a b
      = (st(a := \<lparr>data = map2 (\<lambda>x y. cast (prom x - prom y)) (data (st a)) (data (st b))\<rparr>), a)"
    using assms(2) ne len
    by (simp add: minus_assign_def minus_op_eq assign_op_same_dim comp_def case_prod_unfold)
  have t: "times_assign prom cast junk tmp st a s
      = (st(a := \<lparr>data = map (\<lambda>x. cast (prom x * prom s)) (data (st a))\<rparr>), a)" for s
    using ne by (simp add: times_assign_def times_op_eq assign_op_same_dim comp_def)
  have r: "plus_assign prom cast junk tmp st a b
        = assign_back cast tmp st a (plus_op prom prom junk (st a) (st b))"
    "minus_assign prom cast junk tmp st a b
        = assign_back cast tmp st a (minus_op prom prom junk (st a) (st b))"
    "times_assign prom cast junk tmp st a s
        = assign_back cast tmp st a (times_op prom prom junk (st a) s)"
    "times_assign_call conv prom cast junk tmp st a s'
        = assign_back cast tmp st a (times_op prom prom junk (st a) (conv s'))"
    by (simp_all add: plus_assign_def minus_assign_def times_assign_def assign_back_def
        times_assign_call_def)
  have c: "times_assign_call conv prom cast junk tmp st a s'
      = (st(a := \<lparr>data = map (\<lambda>x. cast (prom x * prom (conv s'))) (data (st a))\<rparr>), a)"
    unfolding times_assign_call_def by (rule t)
  show ?thesis
    using r p m t [of s] c by simp
qed

text \<open>
  The witness is on \<open>unsigned char\<close> elements, whose sum is an \<open>int\<close>: 200 + 100 is 300
  there, and 44 once converted back.
\<close>

theorem compound_assignment_assigns_back_witness:
  "(2::addr) \<noteq> 0
   \<and> Dimension ((\<lambda>p. if p = 0 then \<lparr>data = [200, 100 :: 8 word]\<rparr> else \<lparr>data = [100, 100]\<rparr>) 1)
       = Dimension ((\<lambda>p. if p = 0 then \<lparr>data = [200, 100 :: 8 word]\<rparr> else \<lparr>data = [100, 100]\<rparr>) 0)
   \<and> data (fst (plus_assign uint word_of_int (\<lambda>i. 0) 2
        (\<lambda>p. if p = 0 then \<lparr>data = [200, 100 :: 8 word]\<rparr> else \<lparr>data = [100, 100]\<rparr>) 0 1) 0)
       = [44, 200]
   \<and> snd (plus_assign uint word_of_int (\<lambda>i. 0) 2
        (\<lambda>p. if p = 0 then \<lparr>data = [200, 100 :: 8 word]\<rparr> else \<lparr>data = [100, 100]\<rparr>) 0 1) = 0"
proof -
  have h1: "(2::addr) \<noteq> 0" by simp
  have h2: "Dimension ((\<lambda>p. if p = 0 then \<lparr>data = [200, 100 :: 8 word]\<rparr> else \<lparr>data = [100, 100]\<rparr>) (1::addr))
       = Dimension ((\<lambda>p. if p = 0 then \<lparr>data = [200, 100 :: 8 word]\<rparr> else \<lparr>data = [100, 100]\<rparr>) (0::addr))"
    by (simp add: Dimension_def)
  note sum = compound_assignment_assigns_back [OF h1 h2, of uint word_of_int "\<lambda>i. 0",
      THEN conjunct2, THEN conjunct2, THEN conjunct2, THEN conjunct1]
  show ?thesis
    using h1 h2 sum by simp
qed

text \<open>
  C8 as it was stated fails for a scalar of another type than the elements. On
  \<open>vector3i a(1,2,3)\<close>, \<open>a *= 2.5\<close> converts 2.5 to the \<open>int\<close> 2 and leaves \<open>(2,4,6)\<close>, whereas
  \<open>a * 2.5\<close> is the \<open>vector<double, 3>\<close> \<open>(2.5,5,7.5)\<close>, which assigned back into \<open>a\<close> leaves
  \<open>(2,5,7)\<close>.
\<close>

theorem times_assign_of_double_counterexample:
  "fst (times_assign_call double_to_int id id (\<lambda>i. 0) 1 (\<lambda>p. \<lparr>data = [1, 2, 3 :: int]\<rparr>) 0 (5 / 2)) 0
     = \<lparr>data = [2, 4, 6]\<rparr>
   \<and> fst (assign_back double_to_int 1 (\<lambda>p. \<lparr>data = [1, 2, 3 :: int]\<rparr>) 0
          (times_op real_of_int id (\<lambda>i. 0) \<lparr>data = [1, 2, 3 :: int]\<rparr> (5 / 2))) 0
     = \<lparr>data = [2, 5, 7]\<rparr>
   \<and> times_assign_call double_to_int id id (\<lambda>i. 0) 1 (\<lambda>p. \<lparr>data = [1, 2, 3 :: int]\<rparr>) 0 (5 / 2)
     \<noteq> assign_back double_to_int 1 (\<lambda>p. \<lparr>data = [1, 2, 3 :: int]\<rparr>) 0
          (times_op real_of_int id (\<lambda>i. 0) \<lparr>data = [1, 2, 3 :: int]\<rparr> (5 / 2))"
proof -
  have conv: "double_to_int (5 / 2) = 2" "double_to_int 5 = 5" "double_to_int (15 / 2) = 7"
    by (simp_all add: double_to_int_def)
  have l: "times_assign_call double_to_int id id (\<lambda>i. 0) 1 (\<lambda>p. \<lparr>data = [1, 2, 3 :: int]\<rparr>) 0 (5 / 2)
      = ((\<lambda>p. \<lparr>data = [1, 2, 3]\<rparr>)(0 := \<lparr>data = [2, 4, 6]\<rparr>), 0)"
    by (simp add: times_assign_call_def times_assign_def times_op_eq assign_op_same_dim conv)
  have r: "assign_back double_to_int 1 (\<lambda>p. \<lparr>data = [1, 2, 3 :: int]\<rparr>) 0
          (times_op real_of_int id (\<lambda>i. 0) \<lparr>data = [1, 2, 3 :: int]\<rparr> (5 / 2))
      = ((\<lambda>p. \<lparr>data = [1, 2, 3]\<rparr>)(0 := \<lparr>data = [2, 5, 7]\<rparr>), 0)"
    by (simp add: assign_back_def times_op_eq assign_op_same_dim conv)
  have ne: "((\<lambda>p. \<lparr>data = [1, 2, 3 :: int]\<rparr>)(0 := \<lparr>data = [2, 4, 6]\<rparr>)) (0::addr)
      \<noteq> ((\<lambda>p. \<lparr>data = [1, 2, 3]\<rparr>)(0 := \<lparr>data = [2, 5, 7]\<rparr>)) 0"
    by simp
  then have ne': "(\<lambda>p. \<lparr>data = [1, 2, 3 :: int]\<rparr>)((0::addr) := \<lparr>data = [2, 4, 6]\<rparr>)
      \<noteq> (\<lambda>p. \<lparr>data = [1, 2, 3]\<rparr>)(0 := \<lparr>data = [2, 5, 7]\<rparr>)"
    by metis
  show ?thesis
    unfolding l r using ne' by simp
qed

subsection \<open>Scalar on the left\<close>

text \<open>
  C9. \<open>s * v\<close> is \<open>v * s\<close>: the same vector, element \<open>i\<close> being \<open>v[i] * s\<close>, whatever the
  indeterminate contents of the two results were before they were filled. In particular
  \<open>vector3d(1,2,3) * 2\<close> and \<open>2 * vector3d(1,2,3)\<close> are both \<open>(2,4,6)\<close>; the doubles 1, 2, 3
  and their products with 2 are exact, and stand here as real numbers, the \<open>int\<close> 2
  converted to one.
\<close>

theorem scalar_on_the_left:
  "scalar_times promT promT2 junk s v = times_op promT promT2 junk' v s
   \<and> data (scalar_times promT promT2 junk s v) = map (\<lambda>x. promT x * promT2 s) (data v)
   \<and> times_op id real_of_int junk1 \<lparr>data = [1, 2, 3]\<rparr> 2 = \<lparr>data = [2, 4, 6]\<rparr>
   \<and> scalar_times id real_of_int junk2 2 \<lparr>data = [1, 2, 3]\<rparr> = \<lparr>data = [2, 4, 6]\<rparr>"
  by (simp add: scalar_times_def times_op_eq)

subsection \<open>Unary negation\<close>

text \<open>
  C4. Negation is to return, as a value, the vector with every element negated, and
  to leave its operand alone. The member \<open>operator-() const\<close> returns nothing: its body
  assigns to \<open>*this\<close>, which is const there, so the member is ill-formed for every
  element type and every operand, and \<open>-v\<close> for \<open>vector2i v(1,2)\<close> yields no vector at all.
\<close>

theorem negation_is_ill_formed:
  "uminus_op promT promT2 cast junk tmp st this = None
   \<and> uminus_op (id :: int \<Rightarrow> int) (id :: int \<Rightarrow> int) id (\<lambda>i. 0) 1 (\<lambda>p. \<lparr>data = [1, 2]\<rparr>) 0 = None"
  by (simp add: uminus_op_def assign_this_def)

subsection \<open>The sequential builder\<close>

lemma vector_data_update: "(v :: 'a vector)\<lparr>data := xs\<rparr> = \<lparr>data = xs\<rparr>"
  by (cases v) simp

lemma vector_data_eta: "\<lparr>data = data (v :: 'a vector)\<rparr> = v"
  by (cases v) simp

lemma comma_scalar_ok:
  "index ci < Dimension (st (vec ci)) \<Longrightarrow>
   comma_scalar cast st ci val =
     Inr (st(vec ci := \<lparr>data = (data (st (vec ci)))[index ci := cast val]\<rparr>),
          \<lparr>vec = vec ci, index = Suc (index ci)\<rparr>)"
  by (simp add: comma_scalar_def subscript_store_def vector_data_update)

lemma comma_scalar_overflow:
  "\<not> index ci < Dimension (st (vec ci)) \<Longrightarrow> comma_scalar cast st ci val = Inl (AssertionFailed, st)"
  by (simp add: comma_scalar_def)

text \<open>
  Appending values that fit: they go to the slots from \<open>index_\<close> on, in order, and
  \<open>index_\<close> advances by their number.
\<close>

lemma comma_elems_ok:
  "index ci + length xs \<le> Dimension (st (vec ci)) \<Longrightarrow>
   comma_elems cast st ci xs =
     Inr (st(vec ci := \<lparr>data = take (index ci) (data (st (vec ci))) @ map cast xs
                                @ drop (index ci + length xs) (data (st (vec ci)))\<rparr>),
          \<lparr>vec = vec ci, index = index ci + length xs\<rparr>)"
proof (induction xs arbitrary: st ci)
  case Nil
  then show ?case by (cases ci) (simp add: vector_data_eta)
next
  case (Cons x xs)
  have lt: "index ci < Dimension (st (vec ci))" using Cons.prems by simp
  let ?st = "st(vec ci := \<lparr>data = (data (st (vec ci)))[index ci := cast x]\<rparr>)"
  let ?ci = "\<lparr>vec = vec ci, index = Suc (index ci)\<rparr>"
  have step: "comma_scalar cast st ci x = Inr (?st, ?ci)"
    using lt by (rule comma_scalar_ok)
  have pre: "index ?ci + length xs \<le> Dimension (?st (vec ?ci))"
    using Cons.prems by (simp add: Dimension_def)
  have tk: "take (Suc (index ci)) ((data (st (vec ci)))[index ci := cast x])
      = take (index ci) (data (st (vec ci))) @ [cast x]"
    using lt by (simp add: take_Suc_conv_app_nth Dimension_def)
  have "comma_elems cast st ci (x # xs) = comma_elems cast ?st ?ci xs"
    using step by simp
  also have "\<dots> = Inr (?st(vec ?ci := \<lparr>data = take (index ?ci) (data (?st (vec ?ci))) @ map cast xs
                                @ drop (index ?ci + length xs) (data (?st (vec ?ci)))\<rparr>),
          \<lparr>vec = vec ?ci, index = index ?ci + length xs\<rparr>)"
    using pre by (rule Cons.IH)
  also have "\<dots> = Inr (st(vec ci := \<lparr>data = take (index ci) (data (st (vec ci))) @ map cast (x # xs)
                                @ drop (index ci + length (x # xs)) (data (st (vec ci)))\<rparr>),
          \<lparr>vec = vec ci, index = index ci + length (x # xs)\<rparr>)"
    using tk by simp
  finally show ?case .
qed


lemma comma_vector_ok:
  "index ci + Dimension other \<le> Dimension (st (vec ci)) \<Longrightarrow>
   comma_vector cast st ci other =
     Inr (st(vec ci := \<lparr>data = take (index ci) (data (st (vec ci))) @ map cast (data other)
                                @ drop (index ci + Dimension other) (data (st (vec ci)))\<rparr>),
          \<lparr>vec = vec ci, index = index ci + Dimension other\<rparr>)"
  unfolding comma_vector_def Dimension_def
  using comma_elems_ok [of ci "data other" st cast] by (simp add: Dimension_def)

lemma length_supplied_all_Cons:
  "length (supplied_all (a # as)) = length (supplied a) + length (supplied_all as)"
  by (simp add: supplied_all_def)

lemma comma_chain_ok:
  "index ci + length (supplied_all as) \<le> Dimension (st (vec ci)) \<Longrightarrow>
   comma_chain cast st ci as =
     Inr (st(vec ci := \<lparr>data = take (index ci) (data (st (vec ci))) @ map cast (supplied_all as)
                                @ drop (index ci + length (supplied_all as)) (data (st (vec ci)))\<rparr>),
          \<lparr>vec = vec ci, index = index ci + length (supplied_all as)\<rparr>)"
proof (induction as arbitrary: st ci)
  case Nil
  then show ?case by (cases ci) (simp add: supplied_all_def vector_data_eta)
next
  case (Cons a as)
  let ?d = "data (st (vec ci))"
  let ?xs = "supplied a"
  let ?st = "st(vec ci := \<lparr>data = take (index ci) ?d @ map cast ?xs @ drop (index ci + length ?xs) ?d\<rparr>)"
  let ?ci = "\<lparr>vec = vec ci, index = index ci + length ?xs\<rparr>"
  have fits: "index ci + length ?xs \<le> Dimension (st (vec ci))"
    using Cons.prems by (simp add: length_supplied_all_Cons)
  have pre: "index ?ci + length (supplied_all as) \<le> Dimension (?st (vec ?ci))"
    using Cons.prems by (simp add: Dimension_def length_supplied_all_Cons)
  have "comma_chain cast ?st ?ci as =
      Inr (?st(vec ?ci := \<lparr>data = take (index ?ci) (data (?st (vec ?ci))) @ map cast (supplied_all as)
                                @ drop (index ?ci + length (supplied_all as)) (data (?st (vec ?ci)))\<rparr>),
          \<lparr>vec = vec ?ci, index = index ?ci + length (supplied_all as)\<rparr>)"
    using pre by (rule Cons.IH)
  also have "\<dots> =
      Inr (st(vec ci := \<lparr>data = take (index ci) ?d @ map cast (supplied_all (a # as))
                                @ drop (index ci + length (supplied_all (a # as))) ?d\<rparr>),
          \<lparr>vec = vec ci, index = index ci + length (supplied_all (a # as))\<rparr>)"
    using fits by (simp add: supplied_all_def Dimension_def ac_simps)
  finally have rest: "comma_chain cast ?st ?ci as =
      Inr (st(vec ci := \<lparr>data = take (index ci) ?d @ map cast (supplied_all (a # as))
                                @ drop (index ci + length (supplied_all (a # as))) ?d\<rparr>),
          \<lparr>vec = vec ci, index = index ci + length (supplied_all (a # as))\<rparr>)" .
  show ?case
  proof (cases a)
    case (Scalar val)
    have "comma_scalar cast st ci val = Inr (?st, ?ci)"
      using fits Scalar comma_elems_ok [of ci "[val]" st cast] by (simp split: sum.splits prod.splits)
    then show ?thesis unfolding Scalar comma_chain.simps using rest [unfolded Scalar]
      by (simp only: sum.case prod.case)
  next
    case (Vector c other)
    have "comma_vector cast st ci other = Inr (?st, ?ci)"
      using fits Vector comma_vector_ok [of ci other st cast] by (simp add: Dimension_def)
    moreover have "Dimension other \<le> Dimension (st (vec ci))"
      using fits Vector by (simp add: Dimension_def)
    ultimately show ?thesis unfolding Vector comma_chain.simps using rest [unfolded Vector]
      by (simp only: sum.case prod.case if_True)
  qed
qed

lemma comma_initializer_ctor_ok:
  assumes "length (supplied val) \<le> Dimension (st t)"
  shows "comma_initializer_ctor cast st t val =
     Inr (st(t := \<lparr>data = map cast (supplied val) @ drop (length (supplied val)) (data (st t))\<rparr>),
          \<lparr>vec = t, index = length (supplied val)\<rparr>)"
proof (cases val)
  case (Scalar x)
  have "0 < Dimension (st t)" using assms Scalar by simp
  then show ?thesis
    using Scalar comma_elems_ok [of "\<lparr>vec = t, index = 0\<rparr>" "[x]" st cast]
    by (simp add: comma_initializer_ctor_def split: sum.splits prod.splits)
next
  case (Vector c other)
  have "Dimension other \<le> Dimension (st t)" using assms Vector by (simp add: Dimension_def)
  then show ?thesis
    using Vector comma_vector_ok [of "\<lparr>vec = t, index = 0\<rparr>" other st cast]
    by (simp add: comma_initializer_ctor_def Dimension_def)
qed

text \<open>A statement that supplies exactly \<open>Dimension\<close> values to the builder's target \<open>t\<close>.\<close>

lemma statement_ok:
  assumes "length (supplied_all (val # rest)) = Dimension (st t)"
  shows "(case comma_initializer_ctor cast st t val of
            Inl e \<Rightarrow> Inl e
          | Inr (st1, ci1) \<Rightarrow>
              (case comma_chain cast st1 ci1 rest of
                 Inl e \<Rightarrow> Inl e
               | Inr (st2, ci2) \<Rightarrow> comma_initializer_dtor st2 ci2))
         = Inr (st(t := \<lparr>data = map cast (supplied_all (val # rest))\<rparr>))"
proof -
  let ?n = "length (supplied val)"
  let ?st1 = "st(t := \<lparr>data = map cast (supplied val) @ drop ?n (data (st t))\<rparr>)"
  let ?ci1 = "\<lparr>vec = t, index = ?n\<rparr>"
  let ?st2 = "st(t := \<lparr>data = map cast (supplied_all (val # rest))\<rparr>)"
  let ?ci2 = "\<lparr>vec = t, index = Dimension (st t)\<rparr>"
  have total: "?n + length (supplied_all rest) = Dimension (st t)"
    using assms by (simp add: length_supplied_all_Cons)
  have fits: "?n \<le> Dimension (st t)" using total by simp
  have one: "comma_initializer_ctor cast st t val = Inr (?st1, ?ci1)"
    using fits by (rule comma_initializer_ctor_ok)
  have pre: "index ?ci1 + length (supplied_all rest) \<le> Dimension (?st1 (vec ?ci1))"
    using total by (simp add: Dimension_def)
  have "comma_chain cast ?st1 ?ci1 rest =
      Inr (?st1(vec ?ci1 := \<lparr>data = take (index ?ci1) (data (?st1 (vec ?ci1))) @ map cast (supplied_all rest)
                                @ drop (index ?ci1 + length (supplied_all rest)) (data (?st1 (vec ?ci1)))\<rparr>),
          \<lparr>vec = vec ?ci1, index = index ?ci1 + length (supplied_all rest)\<rparr>)"
    using pre by (rule comma_chain_ok)
  also have "\<dots> = Inr (?st2, ?ci2)"
    using total by (simp add: supplied_all_def Dimension_def)
  finally have two: "comma_chain cast ?st1 ?ci1 rest = Inr (?st2, ?ci2)" .
  have three: "comma_initializer_dtor ?st2 ?ci2 = Inr ?st2"
    using assms by (simp add: comma_initializer_dtor_def Dimension_def)
  show ?thesis
    unfolding one using two three by (simp only: sum.case prod.case)
qed

text \<open>
  Whatever a builder is given, and whether or not an assertion fails, it keeps its
  reference and writes to no object but the one it refers to.
\<close>

lemma comma_scalar_Inr:
  "comma_scalar cast st ci val = Inr (st', ci') \<Longrightarrow>
     vec ci' = vec ci \<and> (\<forall>p. p \<noteq> vec ci \<longrightarrow> st' p = st p)"
  by (auto simp: comma_scalar_def subscript_store_def split: if_splits)

lemma comma_scalar_Inl:
  "comma_scalar cast st ci val = Inl (e, st') \<Longrightarrow> st' = st"
  by (auto simp: comma_scalar_def subscript_store_def split: if_splits)

lemma comma_elems_Inr:
  "comma_elems cast st ci xs = Inr (st', ci') \<Longrightarrow>
     vec ci' = vec ci \<and> (\<forall>p. p \<noteq> vec ci \<longrightarrow> st' p = st p)"
proof (induction xs arbitrary: st ci)
  case Nil
  then show ?case by simp
next
  case (Cons x xs)
  from Cons.prems obtain st1 ci1 where
    one: "comma_scalar cast st ci x = Inr (st1, ci1)" and
    two: "comma_elems cast st1 ci1 xs = Inr (st', ci')"
    by (auto split: sum.splits)
  show ?case
    using comma_scalar_Inr [OF one] Cons.IH [OF two] by simp
qed

lemma comma_elems_Inl:
  "comma_elems cast st ci xs = Inl (e, st') \<Longrightarrow> \<forall>p. p \<noteq> vec ci \<longrightarrow> st' p = st p"
proof (induction xs arbitrary: st ci)
  case Nil
  then show ?case by simp
next
  case (Cons x xs)
  show ?case
  proof (cases "comma_scalar cast st ci x")
    case (Inl a)
    then have "comma_scalar cast st ci x = Inl (e, st')" using Cons.prems by simp
    then show ?thesis using comma_scalar_Inl by fastforce
  next
    case (Inr b)
    obtain st1 ci1 where b: "b = (st1, ci1)" by (cases b)
    have two: "comma_elems cast st1 ci1 xs = Inl (e, st')"
      using Cons.prems Inr b by simp
    show ?thesis
      using comma_scalar_Inr [OF Inr [unfolded b]] Cons.IH [OF two] by simp
  qed
qed

lemma comma_chain_Inr:
  "comma_chain cast st ci as = Inr (st', ci') \<Longrightarrow>
     vec ci' = vec ci \<and> (\<forall>p. p \<noteq> vec ci \<longrightarrow> st' p = st p)"
proof (induction as arbitrary: st ci)
  case Nil
  then show ?case by simp
next
  case (Cons a as)
  show ?case
  proof (cases a)
    case (Scalar val)
    from Cons.prems Scalar obtain st1 ci1 where
      one: "comma_scalar cast st ci val = Inr (st1, ci1)" and
      two: "comma_chain cast st1 ci1 as = Inr (st', ci')"
      by (auto split: sum.splits)
    show ?thesis
      using comma_scalar_Inr [OF one] Cons.IH [OF two] by simp
  next
    case (Vector c other)
    show ?thesis
    proof (cases "Dimension other \<le> Dimension (st (vec ci))")
      case True
      from Cons.prems Vector True obtain st1 ci1 where
        one: "comma_elems cast st ci (data other) = Inr (st1, ci1)" and
        two: "comma_chain cast st1 ci1 as = Inr (st', ci')"
        by (auto simp: comma_vector_def split: sum.splits)
      show ?thesis
        using comma_elems_Inr [OF one] Cons.IH [OF two] by simp
    next
      case False
      then show ?thesis using Cons.prems Vector by simp
    qed
  qed
qed

lemma comma_chain_Inl:
  "comma_chain cast st ci as = Inl (e, st') \<Longrightarrow> \<forall>p. p \<noteq> vec ci \<longrightarrow> st' p = st p"
proof (induction as arbitrary: st ci)
  case Nil
  then show ?case by simp
next
  case (Cons a as)
  define step where "step = (case a of Scalar val \<Rightarrow> comma_scalar cast st ci val
                                | Vector c other \<Rightarrow> comma_elems cast st ci (data other))"
  have unfold: "(case step of Inl e \<Rightarrow> Inl e | Inr (st1, ci1) \<Rightarrow> comma_chain cast st1 ci1 as)
      = Inl (e, st')"
    using Cons.prems by (cases a) (auto simp: step_def comma_vector_def split: if_splits)
  show ?case
  proof (cases step)
    case (Inl x)
    then have "step = Inl (e, st')" using unfold by simp
    then show ?thesis
      using comma_scalar_Inl [of cast st ci _ e st'] comma_elems_Inl [of cast st ci _ e st']
      by (cases a) (auto simp: step_def)
  next
    case (Inr b)
    obtain st1 ci1 where b: "b = (st1, ci1)" by (cases b)
    have two: "comma_chain cast st1 ci1 as = Inl (e, st')"
      using unfold Inr b by simp
    have "vec ci1 = vec ci \<and> (\<forall>p. p \<noteq> vec ci \<longrightarrow> st1 p = st p)"
      using Inr b comma_scalar_Inr [of cast st ci _ st1 ci1] comma_elems_Inr [of cast st ci _ st1 ci1]
      by (cases a) (auto simp: step_def)
    then show ?thesis
      using Cons.IH [OF two] by simp
  qed
qed

lemma comma_initializer_ctor_frame:
  "(comma_initializer_ctor cast st t val = Inr (st', ci') \<longrightarrow>
       vec ci' = t \<and> (\<forall>p. p \<noteq> t \<longrightarrow> st' p = st p))
   \<and> (comma_initializer_ctor cast st t val = Inl (e, st') \<longrightarrow> (\<forall>p. p \<noteq> t \<longrightarrow> st' p = st p))"
  using comma_scalar_Inr [of cast st "\<lparr>vec = t, index = 0\<rparr>" _ st' ci']
    comma_scalar_Inl [of cast st "\<lparr>vec = t, index = 0\<rparr>" _ e st']
    comma_elems_Inr [of cast st "\<lparr>vec = t, index = 0\<rparr>" _ st' ci']
    comma_elems_Inl [of cast st "\<lparr>vec = t, index = 0\<rparr>" _ e st']
  by (cases val) (auto simp: comma_initializer_ctor_def comma_vector_def Let_def split: if_splits)

lemma statement_frame:
  assumes "p \<noteq> t"
  shows "final_store (case comma_initializer_ctor cast st t val of
            Inl e \<Rightarrow> Inl e
          | Inr (st1, ci1) \<Rightarrow>
              (case comma_chain cast st1 ci1 rest of
                 Inl e \<Rightarrow> Inl e
               | Inr (st2, ci2) \<Rightarrow> comma_initializer_dtor st2 ci2)) p = st p"
proof (cases "comma_initializer_ctor cast st t val")
  case (Inl a)
  obtain e st' where a: "a = (e, st')" by (cases a)
  show ?thesis
    using Inl a comma_initializer_ctor_frame [of cast st t val st' _ e] assms by simp
next
  case (Inr b)
  obtain st1 ci1 where b: "b = (st1, ci1)" by (cases b)
  have f1: "vec ci1 = t" "st1 p = st p"
    using Inr b comma_initializer_ctor_frame [of cast st t val st1 ci1] assms by simp_all
  show ?thesis
  proof (cases "comma_chain cast st1 ci1 rest")
    case (Inl a)
    obtain e st' where a: "a = (e, st')" by (cases a)
    show ?thesis
      using Inr b Inl a comma_chain_Inl [of cast st1 ci1 rest e st'] f1 assms by simp
  next
    case (Inr c)
    obtain st2 ci2 where c: "c = (st2, ci2)" by (cases c)
    have "st2 p = st p"
      using Inr c comma_chain_Inr [of cast st1 ci1 rest st2 ci2] f1 assms by simp
    then show ?thesis
      using \<open>comma_initializer_ctor cast st t val = Inr b\<close> b Inr c
      by (simp add: comma_initializer_dtor_def)
  qed
qed

lemma shl_by_reference:
  "\<not> rvalue_vector val \<Longrightarrow> shl cast tmp st v val = comma_initializer_ctor cast st v val"
  by (cases val rule: rvalue_vector.cases) (simp_all add: shl_def shl_ref_def)

lemma shl_by_value:
  "shl cast tmp st v (Vector Rvalue other) =
     comma_initializer_ctor cast (st(tmp := st v)) tmp (Vector Rvalue other)"
  by (simp add: shl_def shl_value_def)

text \<open>
  A statement that starts from the by-reference \<open>operator<<\<close>, that is, whose first
  value is a scalar or an lvalue vector, and that supplies exactly \<open>N\<close> scalar values in
  total (a sub-vector counting as its elements, in index order) completes, and leaves
  in slot \<open>i\<close> of the target the \<open>i\<close>-th supplied value converted to \<open>T\<close>, for every
  \<open>i\<close> below \<open>N\<close>; no other object changes.
\<close>

lemma build_by_reference_fills_target:
  assumes "length (supplied_all (val # rest)) = Dimension (st v)" and "\<not> rvalue_vector val"
  shows "build cast tmp st v val rest = Inr (st(v := \<lparr>data = map cast (supplied_all (val # rest))\<rparr>))
       \<and> (\<forall>i<Dimension (st v).
             subscript (final_store (build cast tmp st v val rest) v) i
               = Inr (cast (supplied_all (val # rest) ! i)))"
proof -
  have run: "build cast tmp st v val rest
      = Inr (st(v := \<lparr>data = map cast (supplied_all (val # rest))\<rparr>))"
    unfolding build_def shl_by_reference [OF assms(2)]
    using statement_ok [where st = st and t = v and cast = cast, OF assms(1)] .
  show ?thesis
    unfolding run using assms(1) by (simp add: subscript_def Dimension_def)
qed

lemma build_by_reference_fills_target_example:
  "length (supplied_all [Scalar 1, Vector Lvalue \<lparr>data = [2, 3 :: int]\<rparr>])
      = Dimension ((\<lambda>p. \<lparr>data = [0, 0, 0 :: real]\<rparr>) (0::addr))
   \<and> \<not> rvalue_vector (Scalar (1::int))
   \<and> build real_of_int 1 (\<lambda>p. \<lparr>data = [0, 0, 0]\<rparr>) 0 (Scalar 1) [Vector Lvalue \<lparr>data = [2, 3]\<rparr>]
       = Inr ((\<lambda>p. \<lparr>data = [0, 0, 0]\<rparr>)(0 := \<lparr>data = [1, 2, 3]\<rparr>))"
proof -
  have h1: "length (supplied_all [Scalar 1, Vector Lvalue \<lparr>data = [2, 3 :: int]\<rparr>])
      = Dimension ((\<lambda>p. \<lparr>data = [0, 0, 0 :: real]\<rparr>) (0::addr))"
    by (simp add: supplied_all_def Dimension_def)
  have h2: "\<not> rvalue_vector (Scalar (1::int))" by simp
  note run = build_by_reference_fills_target [OF h1 h2, of real_of_int 1, THEN conjunct1]
  have s: "map real_of_int (supplied_all [Scalar 1, Vector Lvalue \<lparr>data = [2, 3 :: int]\<rparr>]) = [1, 2, 3]"
    by (simp add: supplied_all_def)
  show ?thesis
    using h1 h2 run unfolding s by (simp only: simp_thms)
qed

text \<open>
  C2. Every chained build that supplies exactly \<open>N\<close> scalar values is to leave the
  \<open>i\<close>-th of them, converted to \<open>T\<close>, in slot \<open>i\<close> of the target. The by-reference
  \<open>operator<<\<close> does that, as shown above. A chain whose first value is an rvalue vector
  does not: \<open>v << vector2i(4,5), 6;\<close> on a \<open>vector3i v\<close> holding \<open>(0,0,0)\<close> at address 0
  supplies exactly three values and completes, but they are in the by-value parameter
  of the second \<open>operator<<\<close>, at address 1, and \<open>v\<close> still holds \<open>(0,0,0)\<close>.
\<close>

theorem build_from_rvalue_vector_misses_target:
  "length (supplied_all [Vector Rvalue \<lparr>data = [4, 5 :: int]\<rparr>, Scalar 6])
      = Dimension ((\<lambda>p. \<lparr>data = [0, 0, 0 :: int]\<rparr>) (0::addr))
   \<and> build id 1 (\<lambda>p. \<lparr>data = [0, 0, 0 :: int]\<rparr>) 0 (Vector Rvalue \<lparr>data = [4, 5]\<rparr>) [Scalar 6]
       = Inr ((\<lambda>p. \<lparr>data = [0, 0, 0]\<rparr>)(1 := \<lparr>data = [4, 5, 6]\<rparr>))
   \<and> data (final_store (build id 1 (\<lambda>p. \<lparr>data = [0, 0, 0 :: int]\<rparr>) 0
                              (Vector Rvalue \<lparr>data = [4, 5]\<rparr>) [Scalar 6]) 0)
       \<noteq> map id (supplied_all [Vector Rvalue \<lparr>data = [4, 5]\<rparr>, Scalar 6])"
  by (simp add: supplied_all_def Dimension_def build_def shl_def shl_value_def
      comma_initializer_ctor_def comma_vector_def comma_scalar_def subscript_store_def
      comma_initializer_dtor_def vector_data_update)

text \<open>
  C3. Appending a scalar when the fill index already equals \<open>N\<close> fails the assertion
  of that append, the store as it was; destroying a builder whose fill index is not
  \<open>N\<close> fails the destructor's assertion; and a statement that supplies exactly \<open>N\<close>
  values, through either overload of \<open>operator<<\<close>, fails neither and completes.
\<close>

theorem builder_fails_fast:
  "(index ci = Dimension (st (vec ci)) \<longrightarrow> comma_scalar cast st ci val = Inl (AssertionFailed, st))
   \<and> (index ci' \<noteq> Dimension (st' (vec ci')) \<longrightarrow>
         comma_initializer_dtor st' ci' = Inl (AssertionFailed, st'))
   \<and> (length (supplied_all (first # rest)) = Dimension (st'' v) \<longrightarrow>
         (\<exists>done. build cast tmp st'' v first rest = Inr done))"
proof -
  have c: "\<exists>done. build cast tmp st'' v first rest = Inr done"
    if n: "length (supplied_all (first # rest)) = Dimension (st'' v)"
  proof (cases "rvalue_vector first")
    case False
    show ?thesis
      unfolding build_def shl_by_reference [OF False]
        using statement_ok [where st = st'' and t = v and cast = cast, OF n] by simp
  next
    case True
    then obtain other where f: "first = Vector Rvalue other"
      by (cases first rule: rvalue_vector.cases) simp_all
    have n': "length (supplied_all (first # rest)) = Dimension ((st''(tmp := st'' v)) tmp)"
      using n by simp
    show ?thesis
      unfolding build_def f shl_by_value
        using statement_ok [where st = "st''(tmp := st'' v)" and t = tmp and cast = cast, OF n' [unfolded f]]
        by simp
  qed
  show ?thesis
    using c by (simp add: comma_scalar_def comma_initializer_dtor_def)
qed

theorem builder_fails_fast_witness:
  "index \<lparr>vec = 0, index = 3\<rparr> = Dimension ((\<lambda>p. \<lparr>data = [7, 8, 9 :: int]\<rparr>) (vec \<lparr>vec = 0, index = 3\<rparr>))
   \<and> comma_scalar id (\<lambda>p. \<lparr>data = [7, 8, 9 :: int]\<rparr>) \<lparr>vec = 0, index = 3\<rparr> (4::int)
       = Inl (AssertionFailed, \<lambda>p. \<lparr>data = [7, 8, 9]\<rparr>)
   \<and> index \<lparr>vec = 0, index = 2\<rparr> \<noteq> Dimension ((\<lambda>p. \<lparr>data = [7, 8, 9 :: int]\<rparr>) (vec \<lparr>vec = 0, index = 2\<rparr>))
   \<and> comma_initializer_dtor (\<lambda>p. \<lparr>data = [7, 8, 9 :: int]\<rparr>) \<lparr>vec = 0, index = 2\<rparr>
       = Inl (AssertionFailed, \<lambda>p. \<lparr>data = [7, 8, 9]\<rparr>)
   \<and> length (supplied_all [Scalar (1::int), Scalar 2, Scalar 3])
       = Dimension ((\<lambda>p. \<lparr>data = [7, 8, 9 :: int]\<rparr>) (0::addr))
   \<and> (\<exists>done. build id 1 (\<lambda>p. \<lparr>data = [7, 8, 9 :: int]\<rparr>) 0 (Scalar (1::int)) [Scalar 2, Scalar 3] = Inr done)"
proof -
  have h1: "index \<lparr>vec = 0, index = 3\<rparr>
      = Dimension ((\<lambda>p. \<lparr>data = [7, 8, 9 :: int]\<rparr>) (vec \<lparr>vec = 0, index = 3\<rparr>))"
    by (simp add: Dimension_def)
  have h2: "index \<lparr>vec = 0, index = 2\<rparr>
      \<noteq> Dimension ((\<lambda>p. \<lparr>data = [7, 8, 9 :: int]\<rparr>) (vec \<lparr>vec = 0, index = 2\<rparr>))"
    by (simp add: Dimension_def)
  have h3: "length (supplied_all [Scalar (1::int), Scalar 2, Scalar 3])
       = Dimension ((\<lambda>p. \<lparr>data = [7, 8, 9 :: int]\<rparr>) (0::addr))"
    by (simp add: supplied_all_def Dimension_def)
  note all = builder_fails_fast [where ci = "\<lparr>vec = 0, index = 3\<rparr>" and st = "\<lambda>p. \<lparr>data = [7, 8, 9 :: int]\<rparr>"
      and ci' = "\<lparr>vec = 0, index = 2\<rparr>" and st' = "\<lambda>p. \<lparr>data = [7, 8, 9 :: int]\<rparr>"
      and st'' = "\<lambda>p. \<lparr>data = [7, 8, 9 :: int]\<rparr>" and v = 0 and first = "Scalar (1::int)"
      and rest = "[Scalar 2, Scalar 3]" and cast = id and val = 4 and tmp = 1]
  show ?thesis
    using h1 h2 h3 all by blast
qed

text \<open>
  C10. A chain begun by \<open>operator<<\<close> with an rvalue vector as its first value binds
  the builder to the by-value parameter, a copy of the target at another address. However
  the statement ends, by completion or by a failed assertion, the caller's vector is
  what it was; when exactly \<open>N\<close> values are supplied, they are in the copy.
\<close>

theorem rvalue_vector_build_leaves_target:
  assumes "tmp \<noteq> v"
  shows "final_store (build cast tmp st v (Vector Rvalue other) rest) v = st v
       \<and> (\<forall>st1 ci1. shl cast tmp st v (Vector Rvalue other) = Inr (st1, ci1) \<longrightarrow> vec ci1 = tmp)
       \<and> (length (supplied_all (Vector Rvalue other # rest)) = Dimension (st v) \<longrightarrow>
            build cast tmp st v (Vector Rvalue other) rest
              = Inr (st(tmp := \<lparr>data = map cast (supplied_all (Vector Rvalue other # rest))\<rparr>)))"
proof -
  have ne: "v \<noteq> tmp" using assms by simp
  have "final_store (build cast tmp st v (Vector Rvalue other) rest) v = (st(tmp := st v)) v"
    unfolding build_def shl_by_value
    using statement_frame [where st = "st(tmp := st v)" and t = tmp and p = v, OF ne] .
  then have one: "final_store (build cast tmp st v (Vector Rvalue other) rest) v = st v"
    using ne by simp
  have two: "vec ci1 = tmp" if "shl cast tmp st v (Vector Rvalue other) = Inr (st1, ci1)" for st1 ci1
    using that comma_initializer_ctor_frame [of cast "st(tmp := st v)" tmp "Vector Rvalue other" st1 ci1]
    unfolding shl_by_value by simp
  have three: "build cast tmp st v (Vector Rvalue other) rest
              = Inr (st(tmp := \<lparr>data = map cast (supplied_all (Vector Rvalue other # rest))\<rparr>))"
    if n: "length (supplied_all (Vector Rvalue other # rest)) = Dimension (st v)"
  proof -
    have n': "length (supplied_all (Vector Rvalue other # rest)) = Dimension ((st(tmp := st v)) tmp)"
      using n by simp
    show ?thesis
      unfolding build_def shl_by_value
        using statement_ok [where st = "st(tmp := st v)" and t = tmp and cast = cast, OF n'] by simp
  qed
  show ?thesis using one two three by blast
qed

theorem rvalue_vector_build_leaves_target_witness:
  "(1::addr) \<noteq> 0
   \<and> length (supplied_all [Vector Rvalue \<lparr>data = [7, 8 :: int]\<rparr>, Scalar 9])
       = Dimension ((\<lambda>p. \<lparr>data = [1, 2, 3 :: int]\<rparr>) (0::addr))
   \<and> final_store (build id 1 (\<lambda>p. \<lparr>data = [1, 2, 3 :: int]\<rparr>) 0
                      (Vector Rvalue \<lparr>data = [7, 8 :: int]\<rparr>) [Scalar 9]) 0
       = \<lparr>data = [1, 2, 3]\<rparr>
   \<and> build id 1 (\<lambda>p. \<lparr>data = [1, 2, 3 :: int]\<rparr>) 0 (Vector Rvalue \<lparr>data = [7, 8 :: int]\<rparr>) [Scalar 9]
       = Inr ((\<lambda>p. \<lparr>data = [1, 2, 3]\<rparr>)(1 := \<lparr>data = [7, 8, 9]\<rparr>))"
proof -
  have h1: "(1::addr) \<noteq> 0" by simp
  have h2: "length (supplied_all [Vector Rvalue \<lparr>data = [7, 8 :: int]\<rparr>, Scalar 9])
       = Dimension ((\<lambda>p. \<lparr>data = [1, 2, 3 :: int]\<rparr>) (0::addr))"
    by (simp add: supplied_all_def Dimension_def)
  note all = rvalue_vector_build_leaves_target [OF h1, of id "\<lambda>p. \<lparr>data = [1, 2, 3 :: int]\<rparr>"
      "\<lparr>data = [7, 8 :: int]\<rparr>" "[Scalar 9]"]
  have s: "map id (supplied_all [Vector Rvalue \<lparr>data = [7, 8 :: int]\<rparr>, Scalar 9]) = [7, 8, 9]"
    by (simp add: supplied_all_def)
  have one: "final_store (build id 1 (\<lambda>p. \<lparr>data = [1, 2, 3 :: int]\<rparr>) 0
                      (Vector Rvalue \<lparr>data = [7, 8 :: int]\<rparr>) [Scalar 9]) 0
       = \<lparr>data = [1, 2, 3]\<rparr>"
    using all [THEN conjunct1] by simp
  have two: "build id 1 (\<lambda>p. \<lparr>data = [1, 2, 3 :: int]\<rparr>) 0 (Vector Rvalue \<lparr>data = [7, 8 :: int]\<rparr>) [Scalar 9]
       = Inr ((\<lambda>p. \<lparr>data = [1, 2, 3]\<rparr>)(1 := \<lparr>data = [7, 8, 9]\<rparr>))"
    using all [THEN conjunct2, THEN conjunct2, rule_format, OF h2] unfolding s .
  show ?thesis
    using h1 h2 one two by (simp only: simp_thms)
qed

end
